theory Spec2Isabelle
  imports Main "HOL-Library.Sublist" "HOL-Library.Multiset"
begin

section \<open>Contact detail dashboard: the control of SelectContactDetailControl/index.ts\<close>

text \<open>
  The control is one TypeScript class. Its fields and the parts of the page it reads and
  writes become one record; every method becomes a function from states to states. The two
  asynchronous methods are split at their \<open>await\<close>: the part before it runs inside the
  handler that starts it, the part after it is a function of its own that the event loop
  runs later.
\<close>

subsection \<open>JavaScript strings\<close>

text \<open>
  A JavaScript string is a sequence of UTF-16 code units. A string is modelled by the bytes
  of its UTF-8 encoding, one \<open>char\<close> each, which covers every well-formed string. What
  the control itself does with strings (joining them, comparing them, looking for a block,
  replacing one of the five ASCII characters of \<open>escapeHtml\<close>) comes to the same on the
  bytes as on the code units.

  \<open>String.prototype.toLowerCase\<close> and \<open>String.prototype.trim\<close> are not code of the
  control but of the JavaScript runtime, and they rest on the Unicode tables: lower-casing
  can change the length of a string and depends on the neighbouring letters. They are
  taken as they come, as two functions \<open>toLowerCase\<close> and \<open>trim\<close> that the state
  carries with the rest of the environment.
\<close>

text \<open>\<open>hay.includes(needle)\<close>: the needle occurs in the hay as a contiguous block.\<close>

definition includes_str :: "string \<Rightarrow> string \<Rightarrow> bool" where
  "includes_str hay needle = sublist needle hay"

text \<open>\<open>value.replace(/c/g, rep)\<close> for a single character \<open>c\<close>.\<close>

definition replace_all :: "char \<Rightarrow> string \<Rightarrow> string \<Rightarrow> string" where
  "replace_all c rep s = concat (map (\<lambda>x. if x = c then rep else [x]) s)"

text \<open>The decimal text of a count, as a template literal prints it.\<close>

fun string_of_nat :: "nat \<Rightarrow> string" where
  "string_of_nat n =
     (if n < 10 then [char_of (48 + n)]
      else string_of_nat (n div 10) @ [char_of (48 + n mod 10)])"

declare string_of_nat.simps [simp del]

text \<open>
  \<open>s.charAt(0).toUpperCase() + s.slice(1)\<close>. It is only applied to the entity names of
  the tab bar, so the upper-casing is modelled on a to z.
\<close>

definition toUpperChar :: "char \<Rightarrow> char" where
  "toUpperChar c = (let n = (of_char c :: nat) in
     if 97 \<le> n \<and> n \<le> 122 then char_of (n - 32) else c)"

fun capitalize :: "string \<Rightarrow> string" where
  "capitalize [] = []"
| "capitalize (c # cs) = toUpperChar c # cs"

subsection \<open>escapeHtml\<close>

definition escapeHtml :: "string \<Rightarrow> string" where
  "escapeHtml v =
     replace_all (CHR 0x27) ''&#039;''
       (replace_all (CHR 0x22) ''&quot;''
         (replace_all CHR ''>'' ''&gt;''
           (replace_all CHR ''<'' ''&lt;''
             (replace_all CHR ''&'' ''&amp;'' v))))"

subsection \<open>Plain objects used as dictionaries\<close>

text \<open>
  \<open>grouped\<close> and \<open>entityCounts\<close> are object literals \<open>{}\<close> indexed by strings. Such
  an object is modelled by its own properties in the order they were created. Three things
  of JavaScript matter for them:
  \<^item> a read of a key that is not an own property goes to \<open>Object.prototype\<close>, which has
    members of its own (\<open>constructor\<close>, \<open>toString\<close>, ...);
  \<^item> a write of a primitive to the key \<open>__proto__\<close> runs the prototype setter, which
    ignores it, so no property is created;
  \<^item> \<open>Object.keys\<close>, \<open>Object.values\<close> and \<open>Object.entries\<close> list the keys that are
    array indices first, in ascending numeric order, then the others in creation order.
\<close>

type_synonym 'v js_object = "(string \<times> 'v) list"

definition object_prototype_names :: "string list" where
  "object_prototype_names =
     [''constructor'', ''__defineGetter__'', ''__defineSetter__'', ''hasOwnProperty'',
      ''__lookupGetter__'', ''__lookupSetter__'', ''isPrototypeOf'', ''propertyIsEnumerable'',
      ''toString'', ''valueOf'', ''__proto__'', ''toLocaleString'']"

fun set_property :: "string \<Rightarrow> 'v \<Rightarrow> 'v js_object \<Rightarrow> 'v js_object" where
  "set_property k v [] = [(k, v)]"
| "set_property k v ((k', v') # ps) =
     (if k = k' then (k, v) # ps else (k', v') # set_property k v ps)"

text \<open>\<open>obj[key] = v\<close> for a number or a string \<open>v\<close>.\<close>

definition assign :: "string \<Rightarrow> 'v \<Rightarrow> 'v js_object \<Rightarrow> 'v js_object" where
  "assign key v obj = (if key = ''__proto__'' then obj else set_property key v obj)"

definition is_digit :: "char \<Rightarrow> bool" where
  "is_digit c = (let n = (of_char c :: nat) in 48 \<le> n \<and> n \<le> 57)"

definition decimal_value :: "string \<Rightarrow> nat" where
  "decimal_value s = foldl (\<lambda>a c. 10 * a + (of_char c - 48)) 0 s"

text \<open>An array index is the canonical decimal text of an integer from 0 to 2^32 - 2.\<close>

definition array_index :: "string \<Rightarrow> nat option" where
  "array_index s =
     (if s \<noteq> [] \<and> list_all is_digit s \<and> (s = ''0'' \<or> hd s \<noteq> CHR ''0'')
         \<and> decimal_value s \<le> 4294967294
      then Some (decimal_value s) else None)"

definition index_rank :: "string \<times> 'v \<Rightarrow> nat" where
  "index_rank p = (case array_index (fst p) of Some n \<Rightarrow> n | None \<Rightarrow> 0)"

definition own_entries :: "'v js_object \<Rightarrow> (string \<times> 'v) list" where
  "own_entries obj =
     sort_key index_rank (filter (\<lambda>p. array_index (fst p) \<noteq> None) obj)
       @ filter (\<lambda>p. array_index (fst p) = None) obj"

definition own_keys :: "'v js_object \<Rightarrow> string list" where
  "own_keys obj = map fst (own_entries obj)"

definition own_values :: "'v js_object \<Rightarrow> 'v list" where
  "own_values obj = map snd (own_entries obj)"

subsection \<open>Counting into an object\<close>

text \<open>
  The values of \<open>grouped\<close> are declared as numbers. At run time a cell is a number, or
  the text that \<open>+ 1\<close> makes from a member of \<open>Object.prototype\<close> (a function or the
  prototype itself, turned into its source text, followed by the digit 1). The text depends
  on the engine; the model only records that the cell is not a number.
\<close>

datatype cell = Num nat | NonNumber

text \<open>\<open>(grouped[key] || 0) + 1\<close>\<close>

definition next_count :: "cell js_object \<Rightarrow> string \<Rightarrow> cell" where
  "next_count grouped key =
     (case map_of grouped key of
        Some (Num n) \<Rightarrow> Num (n + 1)
      | Some NonNumber \<Rightarrow> NonNumber
      | None \<Rightarrow> if key \<in> set object_prototype_names then NonNumber else Num 1)"

text \<open>\<open>grouped[key] = (grouped[key] || 0) + 1\<close>\<close>

definition count_key :: "cell js_object \<Rightarrow> string \<Rightarrow> cell js_object" where
  "count_key grouped key = assign key (next_count grouped key) grouped"

definition group_keys :: "string list \<Rightarrow> cell js_object" where
  "group_keys keys = foldl count_key [] keys"

subsection \<open>Data\<close>

record Contact =
  id' :: string
  name :: string
  email :: string
  city :: string
  job :: string

record RelatedRecord =
  rec_id :: string
  rec_name :: string
  rec_type :: string
  rec_status :: "string option"

text \<open>
  A raw record of the data source, with the five selected columns. \<open>None\<close> is a column
  that is \<open>null\<close> or absent; the columns are text columns, so a present value is a string.
\<close>

record Entity =
  contactid :: "string option"
  fullname :: "string option"
  emailaddress1 :: "string option"
  address1_city :: "string option"
  jobtitle :: "string option"

datatype group_by = City | Job

datatype chart_type = Bar | Pie | Doughnut | PolarArea | Line | Radar

text \<open>
  The eight buttons of the tab bar. \<open>switchTab\<close> is private and is only called with the
  \<open>data-tab\<close> attribute of one of them or with the literal \<open>contact\<close>.
\<close>

datatype tab = ContactTab | Opportunities | Activities | Orders | Quotes | Products
  | Accounts | Leads

fun data_tab :: "tab \<Rightarrow> string" where
  "data_tab ContactTab = ''contact''"
| "data_tab Opportunities = ''opportunities''"
| "data_tab Activities = ''activities''"
| "data_tab Orders = ''orders''"
| "data_tab Quotes = ''quotes''"
| "data_tab Products = ''products''"
| "data_tab Accounts = ''accounts''"
| "data_tab Leads = ''leads''"

definition all_tabs :: "tab list" where
  "all_tabs = [ContactTab, Opportunities, Activities, Orders, Quotes, Products, Accounts, Leads]"

datatype js_error = JsError string

datatype log_entry = Warn string | Error string js_error

text \<open>The configuration handed to the charting library (its fixed options left out).\<close>

record chart_config =
  ctype :: chart_type
  labels :: "string list"
  dataset_label :: string
  data :: "cell list"
  backgroundColor :: "string list"

text \<open>A chart handle: what was drawn, and whether it has been destroyed.\<close>

record chart_handle =
  config :: chart_config
  live :: bool

text \<open>A card of the contact list; \<open>on_click\<close> is the contact its click handler closes over.\<close>

record card =
  data_id :: string
  card_text :: string
  on_click :: Contact

datatype list_content = ListText string | Cards "card list"

text \<open>
  What \<open>#tabContent\<close> holds: a text set through \<open>textContent\<close>, markup set through
  \<open>innerHTML\<close>, or markup followed by an appended list whose items are texts.
\<close>

datatype tab_content = Text string | Html string | HtmlList string "string list"

text \<open>
  The state: the elements of the layout that the methods look up (\<open>None\<close> where
  \<open>querySelector\<close> would return \<open>null\<close>), the fields of the class, and the environment
  (console, requests in flight, the random source, the charting library and the string
  functions of the runtime).
  \<open>random_floor5 i\<close> is the value of \<open>Math.floor(Math.random() * 5)\<close> at the i-th draw,
  \<open>destroy_throws\<close> says for which handles the library's \<open>destroy\<close> throws.
\<close>

record dashboard =
  contactList :: "list_content option"
  tabContent :: "tab_content option"
  entityCountsList :: "string list option"
  tabs :: "(tab \<times> bool) list"
  byCity :: "bool option"
  byJob :: "bool option"
  chartContext :: bool
  chart :: "chart_handle option"
  chartType :: chart_type
  selectedContactId :: "string option"
  contacts :: "Contact list"
  entityCounts :: "nat js_object"
  console :: "log_entry list"
  contactsPending :: bool
  relatedPending :: "(RelatedRecord list \<times> string) list"
  random_floor5 :: "nat \<Rightarrow> nat"
  random_used :: nat
  destroy_throws :: "chart_handle \<Rightarrow> bool"
  toLowerCase :: "string \<Rightarrow> string"
  trim :: "string \<Rightarrow> string"

subsection \<open>Chart adapter\<close>

definition palette :: "string list" where
  "palette = [''#2563eb'', ''#10b981'', ''#f59e0b'', ''#ef4444'', ''#6366f1'', ''#14b8a6'',
     ''#fbbf24'', ''#ec4899'']"

text \<open>\<open>Array.from({ length: count }, (_, i) => palette[i % palette.length])\<close>\<close>

definition getColors :: "nat \<Rightarrow> string list" where
  "getColors cnt = map (\<lambda>i. palette ! (i mod length palette)) [0..<cnt]"

text \<open>
  The charting library is outside the repository. Its \<open>destroy\<close> may throw, which the
  control catches; its constructor is taken to return a handle.

  \<open>try { this.chart.destroy() } catch (e) { console.warn(msg, e) }\<close>, guarded by
  \<open>if (this.chart)\<close>. The field keeps pointing at the handle afterwards.
\<close>

definition teardown :: "string \<Rightarrow> dashboard \<Rightarrow> dashboard" where
  "teardown msg s =
     (case chart s of
        None \<Rightarrow> s
      | Some h \<Rightarrow>
          if destroy_throws s h then s\<lparr>console := console s @ [Warn msg]\<rparr>
          else s\<lparr>chart := Some (h\<lparr>live := False\<rparr>)\<rparr>)"

definition renderChart :: "cell js_object \<Rightarrow> string \<Rightarrow> dashboard \<Rightarrow> dashboard" where
  "renderChart grouped label s =
     (let ls = own_keys grouped;
          ds = own_values grouped;
          s1 = teardown ''Error destroying previous chart:'' s
      in if \<not> chartContext s1 then s1
         else s1\<lparr>chart := Some \<lparr>config = \<lparr>ctype = chartType s1, labels = ls,
                   dataset_label = label, data = ds,
                   backgroundColor = getColors (length ls)\<rparr>, live = True\<rparr>\<rparr>)"

text \<open>\<open>groupBy === "city" ? c.city : c.job\<close>\<close>

definition group_key :: "group_by \<Rightarrow> Contact \<Rightarrow> string" where
  "group_key groupBy c = (if groupBy = City then city c else job c)"

definition group_contacts :: "group_by \<Rightarrow> Contact list \<Rightarrow> cell js_object" where
  "group_contacts groupBy cs = group_keys (map (group_key groupBy) cs)"

definition updateChart :: "group_by \<Rightarrow> dashboard \<Rightarrow> dashboard" where
  "updateChart groupBy s =
     (if \<not> chartContext s then s
      else renderChart (group_contacts groupBy (contacts s)) ''Contacts'' s)"

text \<open>\<open>r.status ?? "Unknown"\<close>\<close>

definition status_or_unknown :: "RelatedRecord \<Rightarrow> string" where
  "status_or_unknown r = (case rec_status r of None \<Rightarrow> ''Unknown'' | Some st \<Rightarrow> st)"

definition updateChartByEntity :: "RelatedRecord list \<Rightarrow> string \<Rightarrow> dashboard \<Rightarrow> dashboard" where
  "updateChartByEntity records entityName s =
     (if \<not> chartContext s then s
      else renderChart (group_keys (map status_or_unknown records)) entityName s)"

subsection \<open>Related counts\<close>

definition renderEntityCounts :: "dashboard \<Rightarrow> dashboard" where
  "renderEntityCounts s =
     (case entityCountsList s of
        None \<Rightarrow> s
      | Some _ \<Rightarrow>
          s\<lparr>entityCountsList :=
              Some (map (\<lambda>(entity, cnt). entity @ '': '' @ string_of_nat cnt)
                     (own_entries (entityCounts s)))\<rparr>)"

definition entities :: "string list" where
  "entities = [''opportunities'', ''activities'', ''orders'', ''quotes'', ''products'',
     ''accounts'', ''leads'']"

definition calculateEntityCounts :: "dashboard \<Rightarrow> dashboard" where
  "calculateEntityCounts s =
     renderEntityCounts (s\<lparr>entityCounts := foldl (\<lambda>obj e. assign e 0 obj) (entityCounts s) entities\<rparr>)"

subsection \<open>Contact list and detail panel\<close>

definition contact_card :: "Contact \<Rightarrow> card" where
  "contact_card c =
     \<lparr>data_id = id' c, card_text = name c @ '' - '' @ email c @ '' - '' @ city c, on_click = c\<rparr>"

definition renderContactList :: "Contact list \<Rightarrow> dashboard \<Rightarrow> dashboard" where
  "renderContactList cs s =
     (case contactList s of
        None \<Rightarrow> s
      | Some _ \<Rightarrow>
          if cs = [] then s\<lparr>contactList := Some (ListText ''No contacts found.'')\<rparr>
          else s\<lparr>contactList := Some (Cards (map contact_card cs))\<rparr>)"

text \<open>The template of the detail panel, with its four holes.\<close>

definition detail_panel :: "string \<Rightarrow> string \<Rightarrow> string \<Rightarrow> string \<Rightarrow> string" where
  "detail_panel n e c j =
     ''\<newline>      <h4>'' @ n @ ''</h4>\<newline>      <p><strong>Email:</strong> '' @ e
       @ ''</p>\<newline>      <p><strong>City:</strong> '' @ c
       @ ''</p>\<newline>      <p><strong>Job Title:</strong> '' @ j @ ''</p>\<newline>    ''"

definition showContactDetails :: "Contact \<Rightarrow> dashboard \<Rightarrow> dashboard" where
  "showContactDetails contact s =
     (case tabContent s of
        None \<Rightarrow> s
      | Some _ \<Rightarrow>
          updateChart City
            (s\<lparr>tabContent := Some (Html (detail_panel (escapeHtml (name contact))
                 (escapeHtml (email contact)) (escapeHtml (city contact))
                 (escapeHtml (job contact))))\<rparr>))"

subsection \<open>Related records (mock)\<close>

definition mock_record :: "string \<Rightarrow> nat \<Rightarrow> RelatedRecord" where
  "mock_record entityName i =
     \<lparr>rec_id = entityName @ ''-'' @ string_of_nat (i + 1),
      rec_name = capitalize entityName @ '' Record '' @ string_of_nat (i + 1),
      rec_type = entityName,
      rec_status = Some (if i mod 2 = 0 then ''Active'' else ''Closed'')\<rparr>"

text \<open>
  \<open>loadRelatedData\<close> up to its \<open>await\<close>: the loading text is shown, the mock records
  are made, and the rest of the method waits for the 150 ms timer.
\<close>

definition loadRelatedData :: "string \<Rightarrow> dashboard \<Rightarrow> dashboard" where
  "loadRelatedData entityName s =
     (case tabContent s of
        None \<Rightarrow> s
      | Some _ \<Rightarrow>
          (let n = random_floor5 s (random_used s) + 1;
               mockRelated = map (mock_record entityName) [0..<n]
           in s\<lparr>tabContent := Some (Text ''Loading related records...''),
                random_used := random_used s + 1,
                relatedPending := relatedPending s @ [(mockRelated, entityName)]\<rparr>))"

definition record_line :: "RelatedRecord \<Rightarrow> string" where
  "record_line r =
     rec_name r @ '' ['' @ (case rec_status r of None \<Rightarrow> ''N/A'' | Some st \<Rightarrow> st) @ '']''"

definition renderRelatedRecords :: "RelatedRecord list \<Rightarrow> string \<Rightarrow> dashboard \<Rightarrow> dashboard" where
  "renderRelatedRecords records entityName s =
     (case tabContent s of
        None \<Rightarrow> s
      | Some _ \<Rightarrow>
          renderEntityCounts
            (s\<lparr>tabContent := Some (HtmlList
                  (''<p>Total '' @ escapeHtml entityName @ '': '' @ string_of_nat (length records)
                     @ ''</p>'')
                  (map record_line records)),
               entityCounts := assign entityName (length records) (entityCounts s)\<rparr>))"

text \<open>
  \<open>loadRelatedData\<close> after its \<open>await\<close>, run when the oldest pending timer fires. The
  two calls are inside the method's \<open>try\<close>; nothing in them throws in this model, so the
  \<open>catch\<close> branch has no counterpart.
\<close>

definition loadRelatedData_resume :: "dashboard \<Rightarrow> dashboard" where
  "loadRelatedData_resume s =
     (case relatedPending s of
        [] \<Rightarrow> s
      | (mockRelated, entityName) # rest \<Rightarrow>
          updateChartByEntity mockRelated entityName
            (renderRelatedRecords mockRelated entityName (s\<lparr>relatedPending := rest\<rparr>)))"

subsection \<open>Tabs and selection\<close>

fun activate :: "tab \<Rightarrow> (tab \<times> bool) list \<Rightarrow> (tab \<times> bool) list" where
  "activate t [] = []"
| "activate t ((t', a) # ts) = (if t' = t then (t', True) # ts else (t', a) # activate t ts)"

definition switchTab :: "tab \<Rightarrow> dashboard \<Rightarrow> dashboard" where
  "switchTab tabName s =
     (let s1 = s\<lparr>tabs := activate tabName (map (\<lambda>(t, a). (t, False)) (tabs s))\<rparr>
      in case tabContent s1 of
           None \<Rightarrow> s1
         | Some _ \<Rightarrow>
             if (selectedContactId s1 = None \<or> selectedContactId s1 = Some [])
                  \<and> tabName \<noteq> ContactTab
             then s1\<lparr>tabContent := Some (Text ''Select a contact first.'')\<rparr>
             else if tabName = ContactTab
             then (case find (\<lambda>c. Some (id' c) = selectedContactId s1) (contacts s1) of
                     Some selectedContact \<Rightarrow> showContactDetails selectedContact s1
                   | None \<Rightarrow> s1)
             else loadRelatedData (data_tab tabName) s1)"

definition onContactSelect :: "Contact \<Rightarrow> dashboard \<Rightarrow> dashboard" where
  "onContactSelect contact s =
     showContactDetails contact (switchTab ContactTab (s\<lparr>selectedContactId := Some (id' contact)\<rparr>))"

subsection \<open>Loading the contacts\<close>

definition to_contact :: "Entity \<Rightarrow> Contact" where
  "to_contact c =
     \<lparr>id' = (case contactid c of None \<Rightarrow> [] | Some v \<Rightarrow> v),
      name = (case fullname c of None \<Rightarrow> ''Unnamed'' | Some v \<Rightarrow> v),
      email = (case emailaddress1 c of None \<Rightarrow> ''N/A'' | Some v \<Rightarrow> v),
      city = (case address1_city c of None \<Rightarrow> ''Unknown'' | Some v \<Rightarrow> v),
      job = (case jobtitle c of None \<Rightarrow> ''N/A'' | Some v \<Rightarrow> v)\<rparr>"

text \<open>
  \<open>loadContacts\<close> after its \<open>await\<close>. The request either rejects with an error
  (\<open>Inl\<close>), which the \<open>catch\<close> takes, or resolves with the records (\<open>Inr\<close>).
\<close>

definition loadContacts_settled :: "js_error + Entity list \<Rightarrow> dashboard \<Rightarrow> dashboard" where
  "loadContacts_settled result s0 =
     (let s = s0\<lparr>contactsPending := False\<rparr>
      in case result of
           Inr ents \<Rightarrow>
             (let s1 = s\<lparr>contacts := filter (\<lambda>ct. id' ct \<noteq> []) (map to_contact ents)\<rparr>
              in updateChart City (calculateEntityCounts (renderContactList (contacts s1) s1)))
         | Inl err \<Rightarrow>
             (let s1 = s\<lparr>console := console s @ [Error ''ContactDetailControl.loadContacts error:'' err]\<rparr>
              in case tabContent s1 of
                   None \<Rightarrow> s1
                 | Some _ \<Rightarrow>
                     s1\<lparr>tabContent := Some (Text ''Failed to load contacts. Check console for details.'')\<rparr>))"

subsection \<open>Life cycle\<close>

text \<open>
  \<open>init\<close>: the layout is rendered, the handlers are registered and the contact request
  is sent. Its arguments are what the environment decides: whether the canvas gives a 2d
  context, the random source, the charting library's behaviour on \<open>destroy\<close>, and the
  runtime's \<open>toLowerCase\<close> and \<open>trim\<close>.
\<close>

definition init :: "bool \<Rightarrow> (nat \<Rightarrow> nat) \<Rightarrow> (chart_handle \<Rightarrow> bool) \<Rightarrow> (string \<Rightarrow> string)
    \<Rightarrow> (string \<Rightarrow> string) \<Rightarrow> dashboard" where
  "init canvas_context rnd throws lower trm =
     \<lparr>contactList = Some (Cards []),
      tabContent = Some (Text ''Select a contact to view details.''),
      entityCountsList = Some [],
      tabs = map (\<lambda>t. (t, t = ContactTab)) all_tabs,
      byCity = Some True,
      byJob = Some False,
      chartContext = canvas_context,
      chart = None,
      chartType = Bar,
      selectedContactId = None,
      contacts = [],
      entityCounts = [],
      console = (if canvas_context then []
                 else [Warn ''ContactDetailControl: canvas #contactChart not found during layout render.'']),
      contactsPending = True,
      relatedPending = [],
      random_floor5 = rnd,
      random_used = 0,
      destroy_throws = throws,
      toLowerCase = lower,
      trim = trm\<rparr>"

definition destroy :: "dashboard \<Rightarrow> dashboard" where
  "destroy s = teardown ''Error destroying chart on destroy:'' s"

subsection \<open>Event handlers\<close>

text \<open>
  The closures registered by \<open>registerEventHandlers\<close>. A button's handler exists only
  if the button was found; the select and the search box appear through the value their
  event carries.
\<close>

definition on_chartType_change :: "chart_type \<Rightarrow> dashboard \<Rightarrow> dashboard" where
  "on_chartType_change v s =
     (let s1 = s\<lparr>chartType := v\<rparr>
      in updateChart (if byCity s1 = Some True then City else Job) s1)"

definition on_byCity_click :: "dashboard \<Rightarrow> dashboard" where
  "on_byCity_click s =
     (case byCity s of
        None \<Rightarrow> s
      | Some _ \<Rightarrow>
          updateChart City (s\<lparr>byCity := Some True, byJob := map_option (\<lambda>_. False) (byJob s)\<rparr>))"

definition on_byJob_click :: "dashboard \<Rightarrow> dashboard" where
  "on_byJob_click s =
     (case byJob s of
        None \<Rightarrow> s
      | Some _ \<Rightarrow>
          updateChart Job (s\<lparr>byJob := Some True, byCity := map_option (\<lambda>_. False) (byCity s)\<rparr>))"

definition on_search_input :: "string \<Rightarrow> dashboard \<Rightarrow> dashboard" where
  "on_search_input v s =
     (let term = toLowerCase s (trim s v)
      in renderContactList
           (filter (\<lambda>c. includes_str (toLowerCase s (name c)) term) (contacts s)) s)"

text \<open>
  One turn of the event loop. A click on a card runs the handler of that card, a settled
  request or a fired timer runs the rest of the method that was waiting for it.
\<close>

datatype event =
    ContactsSettled "js_error + Entity list"
  | SearchInput string
  | CardClick nat
  | TabClick tab
  | ByCityClick
  | ByJobClick
  | ChartTypeChange chart_type
  | RelatedTimer
  | Destroy

fun step :: "dashboard \<Rightarrow> event \<Rightarrow> dashboard" where
  "step s (ContactsSettled r) = (if contactsPending s then loadContacts_settled r s else s)"
| "step s (SearchInput v) = on_search_input v s"
| "step s (CardClick i) =
     (case contactList s of
        Some (Cards cs) \<Rightarrow> if i < length cs then onContactSelect (on_click (cs ! i)) s else s
      | _ \<Rightarrow> s)"
| "step s (TabClick t) = switchTab t s"
| "step s ByCityClick = on_byCity_click s"
| "step s ByJobClick = on_byJob_click s"
| "step s (ChartTypeChange v) = on_chartType_change v s"
| "step s RelatedTimer = loadRelatedData_resume s"
| "step s Destroy = destroy s"

definition run :: "dashboard \<Rightarrow> event list \<Rightarrow> dashboard" where
  "run s evs = foldl step s evs"

section \<open>Notions used to state the properties\<close>

subsection \<open>Entity encoding in one pass\<close>

definition html_entity :: "char \<Rightarrow> string" where
  "html_entity c =
     (if c = CHR ''&'' then ''&amp;''
      else if c = CHR ''<'' then ''&lt;''
      else if c = CHR ''>'' then ''&gt;''
      else if c = CHR 0x22 then ''&quot;''
      else if c = CHR 0x27 then ''&#039;''
      else [c])"

definition encode_entities :: "string \<Rightarrow> string" where
  "encode_entities s = concat (map html_entity s)"

subsection \<open>A name contains a term, ignoring case\<close>

text \<open>
  Relative to a lower-casing of strings: the lower-cased term occurs in the lower-cased
  name as a block.
\<close>

definition name_contains_ci :: "(string \<Rightarrow> string) \<Rightarrow> string \<Rightarrow> Contact \<Rightarrow> bool" where
  "name_contains_ci lower t c = sublist (lower t) (lower (name c))"

text \<open>
  Where the lower-casing works character by character, through \<open>f\<close>, this is a search
  for a block of the name that agrees with the term letter by letter up to case.
\<close>

definition same_letter :: "(char \<Rightarrow> char) \<Rightarrow> char \<Rightarrow> char \<Rightarrow> bool" where
  "same_letter f a b = (f a = f b)"

fun starts_with_ci :: "(char \<Rightarrow> char) \<Rightarrow> string \<Rightarrow> string \<Rightarrow> bool" where
  "starts_with_ci f s [] = True"
| "starts_with_ci f [] (t # ts) = False"
| "starts_with_ci f (c # cs) (t # ts) = (same_letter f c t \<and> starts_with_ci f cs ts)"

fun contains_ci :: "(char \<Rightarrow> char) \<Rightarrow> string \<Rightarrow> string \<Rightarrow> bool" where
  "contains_ci f [] t = (t = [])"
| "contains_ci f (c # cs) t = (starts_with_ci f (c # cs) t \<or> contains_ci f cs t)"

text \<open>The contacts whose cards the list shows.\<close>

definition shown_contacts :: "dashboard \<Rightarrow> Contact list" where
  "shown_contacts s = (case contactList s of Some (Cards cs) \<Rightarrow> map on_click cs | _ \<Rightarrow> [])"

subsection \<open>The layout is in place\<close>

definition present :: "'a option \<Rightarrow> bool" where
  "present x = (x \<noteq> None)"

definition laid_out :: "dashboard \<Rightarrow> bool" where
  "laid_out s = (present (contactList s) \<and> present (tabContent s) \<and> present (entityCountsList s)
     \<and> map fst (tabs s) = all_tabs \<and> present (byCity s) \<and> present (byJob s))"

definition active_tabs :: "dashboard \<Rightarrow> tab list" where
  "active_tabs s = map fst (filter snd (tabs s))"

subsection \<open>Charts and counts\<close>

text \<open>The handle that a redraw of \<open>grouped\<close> under \<open>label\<close> leaves in \<open>chart\<close>.\<close>

definition drawn :: "chart_type \<Rightarrow> cell js_object \<Rightarrow> string \<Rightarrow> chart_handle" where
  "drawn ty grouped label =
     \<lparr>config = \<lparr>ctype = ty, labels = own_keys grouped, dataset_label = label,
        data = own_values grouped, backgroundColor = getColors (length (own_keys grouped))\<rparr>,
      live = True\<rparr>"

definition count_of :: "cell \<Rightarrow> nat" where
  "count_of v = (case v of Num n \<Rightarrow> n | NonNumber \<Rightarrow> 0)"

definition is_count :: "cell \<Rightarrow> bool" where
  "is_count v = (case v of Num n \<Rightarrow> True | NonNumber \<Rightarrow> False)"

definition total_count :: "cell js_object \<Rightarrow> nat" where
  "total_count g = sum_list (map (\<lambda>p. count_of (snd p)) g)"

text \<open>The entries that \<open>console.error\<close> has written.\<close>

fun is_error :: "log_entry \<Rightarrow> bool" where
  "is_error (Error m e) = True"
| "is_error (Warn m) = False"

definition errors_logged :: "dashboard \<Rightarrow> log_entry list" where
  "errors_logged s = filter is_error (console s)"

subsection \<open>Sample data\<close>

definition ann :: Contact where
  "ann = \<lparr>id' = ''c-1'', name = ''Ann & Bob'', email = ''ann@example.org'', city = ''NY'',
     job = ''R&D <lead>''\<rparr>"

definition blank :: Contact where
  "blank = \<lparr>id' = ''c-2'', name = ''Unnamed'', email = ''N/A'', city = ''Unknown'', job = ''N/A''\<rparr>"

definition in_city :: "string \<Rightarrow> Contact" where
  "in_city c = \<lparr>id' = ''c-9'', name = ''Zed'', email = ''zed@example.org'', city = c,
     job = ''Clerk''\<rparr>"

definition raw_ann :: Entity where
  "raw_ann = \<lparr>contactid = Some ''c-1'', fullname = Some ''Ann & Bob'',
     emailaddress1 = Some ''ann@example.org'', address1_city = Some ''NY'',
     jobtitle = Some ''R&D <lead>''\<rparr>"

definition raw_blank :: Entity where
  "raw_blank = \<lparr>contactid = Some ''c-2'', fullname = None, emailaddress1 = None,
     address1_city = None, jobtitle = None\<rparr>"

definition raw_no_id :: Entity where
  "raw_no_id = \<lparr>contactid = None, fullname = Some ''Ghost'', emailaddress1 = None,
     address1_city = Some ''LA'', jobtitle = None\<rparr>"

text \<open>
  String functions that agree with JavaScript's on ASCII text: A to Z move up by 32, and
  tab, line feed, vertical tab, form feed, carriage return and space are trimmed.
\<close>

definition ascii_lower_char :: "char \<Rightarrow> char" where
  "ascii_lower_char c = (let n = (of_char c :: nat) in
     if 65 \<le> n \<and> n \<le> 90 then char_of (n + 32) else c)"

definition ascii_lower :: "string \<Rightarrow> string" where
  "ascii_lower s = map ascii_lower_char s"

definition ascii_whitespace :: "char \<Rightarrow> bool" where
  "ascii_whitespace c = (let n = (of_char c :: nat) in (9 \<le> n \<and> n \<le> 13) \<or> n = 32)"

definition ascii_trim :: "string \<Rightarrow> string" where
  "ascii_trim s = rev (dropWhile ascii_whitespace (rev (dropWhile ascii_whitespace s)))"

text \<open>
  A run of the control on ASCII data: started with a working canvas, then the two contacts
  loaded, then a contact selected and the orders tab opened (its records still pending),
  or the grouping switched to jobs.
\<close>

definition started :: dashboard where
  "started = init True (\<lambda>_. 2) (\<lambda>_. False) ascii_lower ascii_trim"

definition loaded :: dashboard where
  "loaded = step started (ContactsSettled (Inr [raw_ann, raw_blank, raw_no_id]))"


definition by_job :: dashboard where
  "by_job = step loaded ByJobClick"

section \<open>Properties\<close>

subsection \<open>Strings\<close>

lemmas char_eval = ascii_lower_char_def toUpperChar_def char_of_def bit_Suc_0_iff

lemma escapeHtml_Nil: "escapeHtml [] = []"
  by (simp add: escapeHtml_def replace_all_def)

lemma escapeHtml_Cons: "escapeHtml (x # xs) = html_entity x @ escapeHtml xs"
  by (simp add: escapeHtml_def html_entity_def replace_all_def)

text \<open>The five passes of \<open>escapeHtml\<close> amount to one pass that encodes each character.\<close>

lemma escapeHtml_encode: "escapeHtml v = encode_entities v"
  by (induction v) (simp_all add: escapeHtml_Nil escapeHtml_Cons encode_entities_def)

text \<open>The encoded text has no markup character left.\<close>

lemma encode_entities_safe:
  "set (encode_entities s) \<inter> {CHR ''<'', CHR ''>'', CHR 0x22, CHR 0x27} = {}"
  by (induction s) (auto simp: encode_entities_def html_entity_def)

lemma prefix_letters: "prefix (map f t) (map f s) = starts_with_ci f s t"
  by (induction f s t rule: starts_with_ci.induct) (simp_all add: same_letter_def eq_commute)

lemma sublist_letters: "sublist (map f t) (map f s) = contains_ci f s t"
proof (induction s)
  case Nil
  then show ?case by simp
next
  case (Cons c cs)
  have "sublist (map f t) (map f (c # cs))
      = (prefix (map f t) (map f (c # cs)) \<or> sublist (map f t) (map f cs))"
    by (simp add: sublist_Cons_right)
  then show ?case using Cons prefix_letters[of f t "c # cs"] by simp
qed

lemma same_letters_map: "list_all2 (same_letter f) xs ys \<longleftrightarrow> map f xs = map f ys"
proof (induction xs arbitrary: ys)
  case Nil
  then show ?case by auto
next
  case (Cons x xs)
  then show ?case by (cases ys) (auto simp: same_letter_def)
qed

text \<open>
  \<open>contains_ci\<close> says what it should: some block of the name has the length of the term
  and agrees with it letter by letter up to case.
\<close>

lemma contains_ci_iff:
  "contains_ci f s t \<longleftrightarrow>
     (\<exists>pre mid post. s = pre @ mid @ post \<and> list_all2 (same_letter f) mid t)"
proof -
  have "contains_ci f s t \<longleftrightarrow> sublist (map f t) (map f s)"
    by (simp add: sublist_letters)
  also have "\<dots> \<longleftrightarrow> (\<exists>ps ss. map f s = ps @ map f t @ ss)"
    by (simp add: sublist_def)
  also have "\<dots> \<longleftrightarrow> (\<exists>pre mid post. s = pre @ mid @ post \<and> map f mid = map f t)"
  proof
    assume "\<exists>ps ss. map f s = ps @ map f t @ ss"
    then obtain ps ss where "map f s = ps @ map f t @ ss" by blast
    then have "\<exists>pre r. s = pre @ r \<and> ps = map f pre \<and> map f t @ ss = map f r"
      by (simp only: map_eq_append_conv)
    then obtain pre r where s: "s = pre @ r" and r: "map f r = map f t @ ss"
      by auto
    from r have "\<exists>mid post. r = mid @ post \<and> map f t = map f mid \<and> ss = map f post"
      by (simp only: map_eq_append_conv)
    then obtain mid post where "r = mid @ post" "map f mid = map f t"
      by auto
    with s show "\<exists>pre mid post. s = pre @ mid @ post \<and> map f mid = map f t"
      by blast
  next
    assume "\<exists>pre mid post. s = pre @ mid @ post \<and> map f mid = map f t"
    then obtain pre mid post where "s = pre @ mid @ post" "map f mid = map f t"
      by blast
    then have "map f s = map f pre @ map f t @ map f post"
      by simp
    then show "\<exists>ps ss. map f s = ps @ map f t @ ss" by blast
  qed
  finally show ?thesis by (simp add: same_letters_map)
qed

text \<open>The search handler filters by \<open>name_contains_ci\<close> on the trimmed text.\<close>

lemma search_filter:
  "on_search_input v s
     = renderContactList (filter (name_contains_ci (toLowerCase s) (trim s v)) (contacts s)) s"
proof -
  have "filter (\<lambda>c. includes_str (toLowerCase s (name c)) (toLowerCase s (trim s v))) (contacts s)
      = filter (name_contains_ci (toLowerCase s) (trim s v)) (contacts s)"
    by (rule filter_cong) (simp_all add: includes_str_def name_contains_ci_def)
  then show ?thesis by (simp add: on_search_input_def Let_def)
qed

text \<open>
  Where the runtime lower-cases the names and the trimmed text character by character,
  as it does on ASCII text, the match is the letter-by-letter one.
\<close>

lemma name_contains_ci_letters:
  assumes "lower (name c) = map f (name c)" and "lower t = map f t"
  shows "name_contains_ci lower t c = contains_ci f (name c) t"
  using assms by (simp add: name_contains_ci_def sublist_letters)

lemma ascii_trim_examples:
  "ascii_trim '' ann'' = ''ann''" "ascii_trim ''  aNN '' = ''aNN''" "ascii_trim ''x'' = ''x''"
  by (simp_all add: ascii_trim_def ascii_whitespace_def)

subsection \<open>Objects as dictionaries\<close>

lemma map_of_set_property: "map_of (set_property k v ps) = (map_of ps)(k \<mapsto> v)"
  by (induction ps) (auto simp: fun_eq_iff)

lemma keys_set_property: "fst ` set (set_property k v ps) = insert k (fst ` set ps)"
proof -
  have "dom (map_of (set_property k v ps)) = insert k (dom (map_of ps))"
    by (simp add: map_of_set_property)
  then show ?thesis by (simp add: dom_map_of_conv_image_fst)
qed

lemma distinct_set_property:
  "distinct (map fst ps) \<Longrightarrow> distinct (map fst (set_property k v ps))"
  by (induction ps) (auto simp: keys_set_property)

lemma counts_set_property:
  "is_count v \<Longrightarrow> list_all (\<lambda>p. is_count (snd p)) ps
     \<Longrightarrow> list_all (\<lambda>p. is_count (snd p)) (set_property k v ps)"
  by (induction ps) auto

lemma total_set_property_new:
  "map_of ps k = None \<Longrightarrow> total_count (set_property k v ps) = total_count ps + count_of v"
  by (induction ps) (auto simp: total_count_def split: if_splits)

lemma total_set_property_old:
  "map_of ps k = Some w
     \<Longrightarrow> total_count (set_property k v ps) + count_of w = total_count ps + count_of v"
  by (induction ps) (auto simp: total_count_def split: if_splits)

lemma plain_key_not_proto: "k \<notin> set object_prototype_names \<Longrightarrow> k \<noteq> ''__proto__''"
  by (auto simp: object_prototype_names_def)

text \<open>One counting step on a key that \<open>Object.prototype\<close> does not have.\<close>

lemma count_key_plain:
  assumes "k \<notin> set object_prototype_names" and "list_all (\<lambda>p. is_count (snd p)) g"
  shows "total_count (count_key g k) = total_count g + 1"
    and "list_all (\<lambda>p. is_count (snd p)) (count_key g k)"
    and "fst ` set (count_key g k) = insert k (fst ` set g)"
    and "distinct (map fst g) \<Longrightarrow> distinct (map fst (count_key g k))"
proof -
  have np: "k \<noteq> ''__proto__''" using assms(1) by (rule plain_key_not_proto)
  show "fst ` set (count_key g k) = insert k (fst ` set g)"
    using np by (simp add: count_key_def assign_def keys_set_property)
  show "distinct (map fst g) \<Longrightarrow> distinct (map fst (count_key g k))"
    using np by (simp add: count_key_def assign_def distinct_set_property)
  show "total_count (count_key g k) = total_count g + 1"
  proof (cases "map_of g k")
    case None
    then show ?thesis using np assms(1)
      by (simp add: count_key_def assign_def next_count_def total_set_property_new count_of_def)
  next
    case (Some w)
    then have "(k, w) \<in> set g" by (rule map_of_SomeD)
    with assms(2) have "is_count w" by (auto simp: list_all_iff)
    then obtain n where w: "w = Num n" by (cases w) (auto simp: is_count_def)
    show ?thesis using np Some w total_set_property_old[OF Some, of "Num (n + 1)"]
      by (simp add: count_key_def assign_def next_count_def count_of_def)
  qed
  have "is_count (next_count g k)"
  proof (cases "map_of g k")
    case None
    then show ?thesis using assms(1) by (simp add: next_count_def is_count_def)
  next
    case (Some w)
    then have "(k, w) \<in> set g" by (rule map_of_SomeD)
    with assms(2) have "is_count w" by (auto simp: list_all_iff)
    then show ?thesis using Some by (cases w) (auto simp: is_count_def next_count_def)
  qed
  then show "list_all (\<lambda>p. is_count (snd p)) (count_key g k)"
    using assms(2) np by (simp add: count_key_def assign_def counts_set_property)
qed

lemma foldl_count_key_plain:
  assumes "set ks \<inter> set object_prototype_names = {}"
    and "list_all (\<lambda>p. is_count (snd p)) g" and "distinct (map fst g)"
  shows "total_count (foldl count_key g ks) = total_count g + length ks
     \<and> list_all (\<lambda>p. is_count (snd p)) (foldl count_key g ks)
     \<and> fst ` set (foldl count_key g ks) = set ks \<union> fst ` set g
     \<and> distinct (map fst (foldl count_key g ks))"
  using assms
proof (induction ks arbitrary: g)
  case Nil
  then show ?case by simp
next
  case (Cons k ks)
  have k: "k \<notin> set object_prototype_names" using Cons.prems(1) by auto
  note ck = count_key_plain[OF k Cons.prems(2)]
  have "set ks \<inter> set object_prototype_names = {}" using Cons.prems(1) by auto
  from Cons.IH[OF this ck(2) ck(4)[OF Cons.prems(3)]]
  show ?case by (auto simp: ck(1) ck(3))
qed

text \<open>\<open>Object.keys\<close> and \<open>Object.values\<close> reorder the properties but lose none.\<close>

lemma mset_own_entries: "mset (own_entries obj) = mset obj"
  by (simp add: own_entries_def)

lemma set_own_entries: "set (own_entries obj) = set obj"
  using mset_own_entries by (metis set_mset_mset)

lemma set_own_keys: "set (own_keys obj) = fst ` set obj"
  by (simp add: own_keys_def set_own_entries)

lemma distinct_own_keys: "distinct (map fst obj) \<Longrightarrow> distinct (own_keys obj)"
proof -
  assume "distinct (map fst obj)"
  moreover have "mset (map fst (own_entries obj)) = mset (map fst obj)"
    by (simp add: mset_own_entries)
  ultimately show ?thesis unfolding own_keys_def by (metis mset_eq_imp_distinct_iff)
qed

lemma sum_own_values: "sum_list (map count_of (own_values g)) = total_count g"
proof -
  have "mset (map (\<lambda>p. count_of (snd p)) (own_entries g)) = mset (map (\<lambda>p. count_of (snd p)) g)"
    by (simp add: mset_own_entries)
  then have "sum_list (map (\<lambda>p. count_of (snd p)) (own_entries g))
      = sum_list (map (\<lambda>p. count_of (snd p)) g)"
    by (metis sum_mset_sum_list)
  then show ?thesis by (simp add: own_values_def total_count_def comp_def)
qed

lemma counts_own_values:
  "list_all (\<lambda>p. is_count (snd p)) g \<Longrightarrow> list_all is_count (own_values g)"
  by (simp add: own_values_def list_all_iff set_own_entries)

text \<open>
  Array-index keys come first in numeric order: cities \<open>b\<close>, \<open>10\<close>, \<open>2\<close> are listed as
  \<open>2\<close>, \<open>10\<close>, \<open>b\<close>.
\<close>

lemma own_keys_example:
  "own_keys (group_contacts City [in_city ''b'', in_city ''10'', in_city ''2'']) = [''2'', ''10'', ''b'']"
  by (simp add: group_contacts_def group_key_def group_keys_def count_key_def assign_def
        next_count_def object_prototype_names_def in_city_def own_keys_def own_entries_def
        array_index_def is_digit_def decimal_value_def index_rank_def)

text \<open>
  Grouping on keys that \<open>Object.prototype\<close> does not have: every cell is a count, the
  counts add up to the number of contacts, and the keys are the distinct values of the
  grouping field. The sequence NY, NY, LA gives NY 2 and LA 1.
\<close>

lemma group_contacts_plain_keys:
  assumes "set (map (group_key groupBy) cs) \<inter> set object_prototype_names = {}"
  shows "list_all is_count (own_values (group_contacts groupBy cs))
    \<and> sum_list (map count_of (own_values (group_contacts groupBy cs))) = length cs
    \<and> set (own_keys (group_contacts groupBy cs)) = set (map (group_key groupBy) cs)
    \<and> distinct (own_keys (group_contacts groupBy cs))"
proof -
  have "total_count (group_contacts groupBy cs) = length cs
     \<and> list_all (\<lambda>p. is_count (snd p)) (group_contacts groupBy cs)
     \<and> fst ` set (group_contacts groupBy cs) = set (map (group_key groupBy) cs)
     \<and> distinct (map fst (group_contacts groupBy cs))"
    using foldl_count_key_plain[of "map (group_key groupBy) cs" "[]"] assms
    by (simp add: group_contacts_def group_keys_def total_count_def)
  then show ?thesis
    by (simp add: sum_own_values counts_own_values set_own_keys distinct_own_keys)
qed

lemma group_contacts_example:
  "group_contacts City [in_city ''NY'', in_city ''NY'', in_city ''LA'']
     = [(''NY'', Num 2), (''LA'', Num 1)]"
  by (simp add: group_contacts_def group_key_def group_keys_def count_key_def assign_def
        next_count_def object_prototype_names_def in_city_def)

subsection \<open>What each method leaves alone\<close>

lemma present_simps [simp]: "present (Some x)" "\<not> present None"
  by (simp_all add: present_def)

lemma teardown_writes:
  "teardown m s = s\<lparr>chart := chart (teardown m s), console := console (teardown m s)\<rparr>"
  by (simp add: teardown_def split: option.splits)

lemma updateChart_writes:
  "updateChart g s = s\<lparr>chart := chart (updateChart g s), console := console (updateChart g s)\<rparr>"
  by (simp add: updateChart_def renderChart_def teardown_def Let_def split: option.splits)

lemma updateChartByEntity_writes:
  "updateChartByEntity rs e s = s\<lparr>chart := chart (updateChartByEntity rs e s),
     console := console (updateChartByEntity rs e s)\<rparr>"
  by (simp add: updateChartByEntity_def renderChart_def teardown_def Let_def split: option.splits)

lemma teardown_frame [simp]:
  "contacts (teardown m s) = contacts s"
  "toLowerCase (teardown m s) = toLowerCase s"
  "trim (teardown m s) = trim s"
  "contactsPending (teardown m s) = contactsPending s"
  "relatedPending (teardown m s) = relatedPending s"
  "tabContent (teardown m s) = tabContent s"
  "contactList (teardown m s) = contactList s"
  "entityCountsList (teardown m s) = entityCountsList s"
  "tabs (teardown m s) = tabs s"
  "byCity (teardown m s) = byCity s"
  "byJob (teardown m s) = byJob s"
  "selectedContactId (teardown m s) = selectedContactId s"
  "entityCounts (teardown m s) = entityCounts s"
  "chartContext (teardown m s) = chartContext s"
  "chartType (teardown m s) = chartType s"
  by (subst teardown_writes, simp)+

lemma updateChart_frame [simp]:
  "contacts (updateChart g s) = contacts s"
  "toLowerCase (updateChart g s) = toLowerCase s"
  "trim (updateChart g s) = trim s"
  "contactsPending (updateChart g s) = contactsPending s"
  "relatedPending (updateChart g s) = relatedPending s"
  "tabContent (updateChart g s) = tabContent s"
  "contactList (updateChart g s) = contactList s"
  "entityCountsList (updateChart g s) = entityCountsList s"
  "tabs (updateChart g s) = tabs s"
  "byCity (updateChart g s) = byCity s"
  "byJob (updateChart g s) = byJob s"
  "selectedContactId (updateChart g s) = selectedContactId s"
  "entityCounts (updateChart g s) = entityCounts s"
  "chartContext (updateChart g s) = chartContext s"
  "chartType (updateChart g s) = chartType s"
  by (subst updateChart_writes, simp)+

lemma updateChartByEntity_frame [simp]:
  "contacts (updateChartByEntity rs e s) = contacts s"
  "contactsPending (updateChartByEntity rs e s) = contactsPending s"
  "relatedPending (updateChartByEntity rs e s) = relatedPending s"
  "tabContent (updateChartByEntity rs e s) = tabContent s"
  "contactList (updateChartByEntity rs e s) = contactList s"
  "entityCountsList (updateChartByEntity rs e s) = entityCountsList s"
  "tabs (updateChartByEntity rs e s) = tabs s"
  "byCity (updateChartByEntity rs e s) = byCity s"
  "byJob (updateChartByEntity rs e s) = byJob s"
  "selectedContactId (updateChartByEntity rs e s) = selectedContactId s"
  "entityCounts (updateChartByEntity rs e s) = entityCounts s"
  "chartContext (updateChartByEntity rs e s) = chartContext s"
  by (subst updateChartByEntity_writes, simp)+

lemma renderChart_chart:
  "chartContext s \<Longrightarrow> chart (renderChart g l s) = Some (drawn (chartType s) g l)"
  by (simp add: renderChart_def Let_def drawn_def)

lemma updateChart_chart:
  "chartContext s \<Longrightarrow>
   chart (updateChart gb s) = Some (drawn (chartType s) (group_contacts gb (contacts s)) ''Contacts'')"
  by (simp add: updateChart_def renderChart_chart)

lemma renderEntityCounts_writes:
  "renderEntityCounts s = s\<lparr>entityCountsList := entityCountsList (renderEntityCounts s)\<rparr>"
  by (simp add: renderEntityCounts_def split: option.splits)

lemma renderEntityCounts_present [simp]:
  "present (entityCountsList (renderEntityCounts s)) = present (entityCountsList s)"
  by (cases "entityCountsList s") (simp_all add: renderEntityCounts_def)

lemma renderEntityCounts_frame [simp]:
  "console (renderEntityCounts s) = console s"
  "contacts (renderEntityCounts s) = contacts s"
  "toLowerCase (renderEntityCounts s) = toLowerCase s"
  "trim (renderEntityCounts s) = trim s"
  "contactsPending (renderEntityCounts s) = contactsPending s"
  "relatedPending (renderEntityCounts s) = relatedPending s"
  "tabContent (renderEntityCounts s) = tabContent s"
  "contactList (renderEntityCounts s) = contactList s"
  "tabs (renderEntityCounts s) = tabs s"
  "byCity (renderEntityCounts s) = byCity s"
  "byJob (renderEntityCounts s) = byJob s"
  "selectedContactId (renderEntityCounts s) = selectedContactId s"
  "entityCounts (renderEntityCounts s) = entityCounts s"
  "chartContext (renderEntityCounts s) = chartContext s"
  "chartType (renderEntityCounts s) = chartType s"
  "chart (renderEntityCounts s) = chart s"
  by (subst renderEntityCounts_writes, simp)+

lemma calculateEntityCounts_frame [simp]:
  "contacts (calculateEntityCounts s) = contacts s"
  "toLowerCase (calculateEntityCounts s) = toLowerCase s"
  "trim (calculateEntityCounts s) = trim s"
  "contactsPending (calculateEntityCounts s) = contactsPending s"
  "relatedPending (calculateEntityCounts s) = relatedPending s"
  "tabContent (calculateEntityCounts s) = tabContent s"
  "contactList (calculateEntityCounts s) = contactList s"
  "tabs (calculateEntityCounts s) = tabs s"
  "byCity (calculateEntityCounts s) = byCity s"
  "byJob (calculateEntityCounts s) = byJob s"
  "selectedContactId (calculateEntityCounts s) = selectedContactId s"
  "chartContext (calculateEntityCounts s) = chartContext s"
  "chartType (calculateEntityCounts s) = chartType s"
  "chart (calculateEntityCounts s) = chart s"
  "present (entityCountsList (calculateEntityCounts s)) = present (entityCountsList s)"
  by (simp_all add: calculateEntityCounts_def)

lemma renderContactList_frame [simp]:
  "contacts (renderContactList cs s) = contacts s"
  "toLowerCase (renderContactList cs s) = toLowerCase s"
  "trim (renderContactList cs s) = trim s"
  "contactsPending (renderContactList cs s) = contactsPending s"
  "relatedPending (renderContactList cs s) = relatedPending s"
  "tabContent (renderContactList cs s) = tabContent s"
  "entityCountsList (renderContactList cs s) = entityCountsList s"
  "tabs (renderContactList cs s) = tabs s"
  "byCity (renderContactList cs s) = byCity s"
  "byJob (renderContactList cs s) = byJob s"
  "selectedContactId (renderContactList cs s) = selectedContactId s"
  "entityCounts (renderContactList cs s) = entityCounts s"
  "chartContext (renderContactList cs s) = chartContext s"
  "chartType (renderContactList cs s) = chartType s"
  "chart (renderContactList cs s) = chart s"
  "present (contactList (renderContactList cs s)) = present (contactList s)"
  by (simp_all add: renderContactList_def split: option.splits)

lemma showContactDetails_frame [simp]:
  "contacts (showContactDetails c s) = contacts s"
  "contactsPending (showContactDetails c s) = contactsPending s"
  "relatedPending (showContactDetails c s) = relatedPending s"
  "contactList (showContactDetails c s) = contactList s"
  "entityCountsList (showContactDetails c s) = entityCountsList s"
  "tabs (showContactDetails c s) = tabs s"
  "byCity (showContactDetails c s) = byCity s"
  "byJob (showContactDetails c s) = byJob s"
  "selectedContactId (showContactDetails c s) = selectedContactId s"
  "entityCounts (showContactDetails c s) = entityCounts s"
  "chartContext (showContactDetails c s) = chartContext s"
  "chartType (showContactDetails c s) = chartType s"
  by (simp_all add: showContactDetails_def split: option.splits)

lemma showContactDetails_present [simp]:
  "present (tabContent (showContactDetails c s)) = present (tabContent s)"
  by (cases "tabContent s") (simp_all add: showContactDetails_def)

lemma showContactDetails_tabContent:
  "tabContent s \<noteq> None \<Longrightarrow> tabContent (showContactDetails c s) =
     Some (Html (detail_panel (escapeHtml (name c)) (escapeHtml (email c))
                   (escapeHtml (city c)) (escapeHtml (job c))))"
  by (auto simp: showContactDetails_def)

lemma showContactDetails_chart:
  "tabContent s \<noteq> None \<Longrightarrow> chartContext s \<Longrightarrow>
   chart (showContactDetails c s)
     = Some (drawn (chartType s) (group_contacts City (contacts s)) ''Contacts'')"
  by (auto simp: showContactDetails_def updateChart_chart)

lemma loadRelatedData_frame [simp]:
  "contacts (loadRelatedData e s) = contacts s"
  "contactsPending (loadRelatedData e s) = contactsPending s"
  "contactList (loadRelatedData e s) = contactList s"
  "entityCountsList (loadRelatedData e s) = entityCountsList s"
  "tabs (loadRelatedData e s) = tabs s"
  "byCity (loadRelatedData e s) = byCity s"
  "byJob (loadRelatedData e s) = byJob s"
  "selectedContactId (loadRelatedData e s) = selectedContactId s"
  "entityCounts (loadRelatedData e s) = entityCounts s"
  "chartContext (loadRelatedData e s) = chartContext s"
  "chartType (loadRelatedData e s) = chartType s"
  "chart (loadRelatedData e s) = chart s"
  "present (tabContent (loadRelatedData e s)) = present (tabContent s)"
  by (simp_all add: loadRelatedData_def Let_def split: option.splits)

lemma renderRelatedRecords_frame [simp]:
  "console (renderRelatedRecords rs e s) = console s"
  "contacts (renderRelatedRecords rs e s) = contacts s"
  "contactsPending (renderRelatedRecords rs e s) = contactsPending s"
  "relatedPending (renderRelatedRecords rs e s) = relatedPending s"
  "contactList (renderRelatedRecords rs e s) = contactList s"
  "tabs (renderRelatedRecords rs e s) = tabs s"
  "byCity (renderRelatedRecords rs e s) = byCity s"
  "byJob (renderRelatedRecords rs e s) = byJob s"
  "selectedContactId (renderRelatedRecords rs e s) = selectedContactId s"
  "chartContext (renderRelatedRecords rs e s) = chartContext s"
  "chartType (renderRelatedRecords rs e s) = chartType s"
  "chart (renderRelatedRecords rs e s) = chart s"
  "present (tabContent (renderRelatedRecords rs e s)) = present (tabContent s)"
  "present (entityCountsList (renderRelatedRecords rs e s)) = present (entityCountsList s)"
  by (simp_all add: renderRelatedRecords_def split: option.splits)

lemma loadRelatedData_resume_frame [simp]:
  "contacts (loadRelatedData_resume s) = contacts s"
  "contactsPending (loadRelatedData_resume s) = contactsPending s"
  "contactList (loadRelatedData_resume s) = contactList s"
  "tabs (loadRelatedData_resume s) = tabs s"
  "byCity (loadRelatedData_resume s) = byCity s"
  "byJob (loadRelatedData_resume s) = byJob s"
  "selectedContactId (loadRelatedData_resume s) = selectedContactId s"
  "chartContext (loadRelatedData_resume s) = chartContext s"
  "present (tabContent (loadRelatedData_resume s)) = present (tabContent s)"
  "present (entityCountsList (loadRelatedData_resume s)) = present (entityCountsList s)"
  by (simp_all add: loadRelatedData_resume_def split: list.splits)

lemma map_fst_activate [simp]: "map fst (activate t ts) = map fst ts"
  by (induction ts) auto

lemma fst_deactivate [simp]: "fst \<circ> (\<lambda>(t, a). (t, False)) = fst"
  by (auto simp: fun_eq_iff)

lemma switchTab_frame [simp]:
  "contacts (switchTab t s) = contacts s"
  "contactsPending (switchTab t s) = contactsPending s"
  "contactList (switchTab t s) = contactList s"
  "entityCountsList (switchTab t s) = entityCountsList s"
  "tabs (switchTab t s) = activate t (map (\<lambda>(t, a). (t, False)) (tabs s))"
  "byCity (switchTab t s) = byCity s"
  "byJob (switchTab t s) = byJob s"
  "selectedContactId (switchTab t s) = selectedContactId s"
  "entityCounts (switchTab t s) = entityCounts s"
  "chartContext (switchTab t s) = chartContext s"
  "chartType (switchTab t s) = chartType s"
  by (simp_all add: switchTab_def Let_def split: option.splits)

lemma switchTab_present [simp]:
  "present (tabContent (switchTab t s)) = present (tabContent s)"
  by (cases "tabContent s") (simp_all add: switchTab_def Let_def split: option.splits)

lemma onContactSelect_frame [simp]:
  "contacts (onContactSelect c s) = contacts s"
  "contactsPending (onContactSelect c s) = contactsPending s"
  "contactList (onContactSelect c s) = contactList s"
  "entityCountsList (onContactSelect c s) = entityCountsList s"
  "tabs (onContactSelect c s) = activate ContactTab (map (\<lambda>(t, a). (t, False)) (tabs s))"
  "byCity (onContactSelect c s) = byCity s"
  "byJob (onContactSelect c s) = byJob s"
  "selectedContactId (onContactSelect c s) = Some (id' c)"
  "entityCounts (onContactSelect c s) = entityCounts s"
  "chartContext (onContactSelect c s) = chartContext s"
  "chartType (onContactSelect c s) = chartType s"
  "present (tabContent (onContactSelect c s)) = present (tabContent s)"
  by (simp_all add: onContactSelect_def)

lemma handlers_frame [simp]:
  "contacts (on_chartType_change v s) = contacts s"
  "contactsPending (on_chartType_change v s) = contactsPending s"
  "contacts (on_byCity_click s) = contacts s"
  "contactsPending (on_byCity_click s) = contactsPending s"
  "contacts (on_byJob_click s) = contacts s"
  "contactsPending (on_byJob_click s) = contactsPending s"
  "contacts (on_search_input t s) = contacts s"
  "contactsPending (on_search_input t s) = contactsPending s"
  "contacts (destroy s) = contacts s"
  "contactsPending (destroy s) = contactsPending s"
  by (simp_all add: on_chartType_change_def on_byCity_click_def on_byJob_click_def
        on_search_input_def destroy_def Let_def split: option.splits)

lemma loadContacts_settled_frame:
  "\<not> contactsPending (loadContacts_settled r s)"
  "contacts (loadContacts_settled (Inl err) s) = contacts s"
  "contacts (loadContacts_settled (Inr ents) s) = filter (\<lambda>ct. id' ct \<noteq> []) (map to_contact ents)"
  by (simp_all add: loadContacts_settled_def Let_def split: option.splits sum.splits)

lemma loadContacts_settled_layout [simp]:
  "present (tabContent (loadContacts_settled r s)) = present (tabContent s)"
  "present (contactList (loadContacts_settled r s)) = present (contactList s)"
  "present (entityCountsList (loadContacts_settled r s)) = present (entityCountsList s)"
  "tabs (loadContacts_settled r s) = tabs s"
  "byCity (loadContacts_settled r s) = byCity s"
  "byJob (loadContacts_settled r s) = byJob s"
  by (cases r; cases "tabContent s"; simp add: loadContacts_settled_def Let_def)+


subsection \<open>Tearing down a chart logs no error\<close>

lemma errors_logged_teardown [simp]: "errors_logged (teardown m s) = errors_logged s"
  by (simp add: errors_logged_def teardown_def split: option.splits)

lemma errors_logged_updateChartByEntity [simp]:
  "errors_logged (updateChartByEntity rs e s) = errors_logged s"
proof -
  have "console (renderChart g l s) = console (teardown ''Error destroying previous chart:'' s)"
    for g l
    by (simp add: renderChart_def Let_def)
  then have "errors_logged (renderChart g l s) = errors_logged s" for g l
    using errors_logged_teardown[of "''Error destroying previous chart:''" s]
    by (simp add: errors_logged_def)
  then show ?thesis by (simp add: updateChartByEntity_def)
qed

subsection \<open>Without a canvas context the chart is never touched\<close>

lemma updateChart_without_context: "\<not> chartContext s \<Longrightarrow> chart (updateChart g s) = chart s"
  by (simp add: updateChart_def)

lemma showContactDetails_without_context:
  "\<not> chartContext s \<Longrightarrow> chart (showContactDetails c s) = chart s"
  by (cases "tabContent s") (simp_all add: showContactDetails_def updateChart_def)

lemma switchTab_without_context:
  "\<not> chartContext s \<Longrightarrow> chart (switchTab ContactTab s) = chart s"
  by (cases "tabContent s")
     (simp_all add: switchTab_def Let_def showContactDetails_without_context split: option.splits)

lemma onContactSelect_without_context:
  "\<not> chartContext s \<Longrightarrow> chart (onContactSelect c s) = chart s"
  by (simp add: onContactSelect_def showContactDetails_without_context switchTab_without_context)

lemmas chart_without_context = updateChart_without_context showContactDetails_without_context
  switchTab_without_context onContactSelect_without_context

subsection \<open>Once the request has settled, the contacts stay as they are\<close>

lemma step_contacts:
  "\<not> contactsPending s \<Longrightarrow> contacts (step s e) = contacts s \<and> \<not> contactsPending (step s e)"
  by (cases e) (simp_all split: option.splits list_content.splits)

lemma run_contacts:
  "\<not> contactsPending s \<Longrightarrow> contacts (run s evs) = contacts s \<and> \<not> contactsPending (run s evs)"
  unfolding run_def
proof (induction evs arbitrary: s)
  case Nil
  then show ?case by simp
next
  case (Cons e evs)
  from step_contacts[OF Cons.prems, of e] Cons.IH[of "step s e"]
  show ?case by simp
qed

subsection \<open>The layout stays in place\<close>

lemma laid_out_init: "laid_out (init c r t l m)"
  by (simp add: laid_out_def init_def comp_def)

lemma laid_out_handlers:
  assumes "laid_out s"
  shows "laid_out (loadContacts_settled r s)"
    and "laid_out (on_search_input v s)"
    and "laid_out (onContactSelect c s)"
    and "laid_out (switchTab t s)"
    and "laid_out (on_byCity_click s)"
    and "laid_out (on_byJob_click s)"
    and "laid_out (on_chartType_change ty s)"
    and "laid_out (loadRelatedData_resume s)"
    and "laid_out (destroy s)"
proof -
  show "laid_out (loadContacts_settled r s)" "laid_out (on_search_input v s)"
    "laid_out (onContactSelect c s)" "laid_out (switchTab t s)"
    "laid_out (on_chartType_change ty s)" "laid_out (loadRelatedData_resume s)"
    "laid_out (destroy s)"
    using assms
    by (simp_all add: laid_out_def on_search_input_def on_chartType_change_def destroy_def Let_def)
  show "laid_out (on_byCity_click s)"
    using assms
    by (cases "byCity s"; cases "byJob s") (simp_all add: laid_out_def on_byCity_click_def)
  show "laid_out (on_byJob_click s)"
    using assms
    by (cases "byCity s"; cases "byJob s") (simp_all add: laid_out_def on_byJob_click_def)
qed

lemma laid_out_step: "laid_out s \<Longrightarrow> laid_out (step s e)"
  by (cases e) (simp_all add: laid_out_handlers split: option.splits list_content.splits)

lemma laid_out_run: "laid_out s \<Longrightarrow> laid_out (run s evs)"
  unfolding run_def by (induction evs arbitrary: s) (simp_all add: laid_out_step)

text \<open>
  So in every state that the control reaches from \<open>init\<close> the elements are there, and
  the early returns on a missing element are never taken.
\<close>

lemma reachable_laid_out: "laid_out (run (init c r t l m) evs)"
  by (simp add: laid_out_run laid_out_init)

lemma reachable_elements:
  "tabContent (run (init c r t l m) evs) \<noteq> None"
  "contactList (run (init c r t l m) evs) \<noteq> None"
  using reachable_laid_out[of c r t l m evs] by (simp_all add: laid_out_def present_def)

subsection \<open>Exactly one tab is active after a switch\<close>

lemma deactivated_none_active: "filter snd (map (\<lambda>(t, a). (t, False)) ts) = []"
  by (induction ts) auto

lemma activate_single:
  "t \<in> fst ` set ts \<Longrightarrow>
   map fst (filter snd (activate t (map (\<lambda>(t, a). (t, False)) ts))) = [t]"
proof (induction ts)
  case Nil
  then show ?case by simp
next
  case (Cons p ts)
  obtain t' a where p: "p = (t', a)" by (cases p)
  show ?case
  proof (cases "t' = t")
    case True
    then show ?thesis using p by (simp add: deactivated_none_active)
  next
    case False
    then have "t \<in> fst ` set ts" using Cons.prems p by auto
    then show ?thesis using Cons.IH False p by simp
  qed
qed

lemma all_tabs_mem: "t \<in> set all_tabs"
  by (cases t) (simp_all add: all_tabs_def)

lemma laid_out_active: "laid_out s \<Longrightarrow> active_tabs (switchTab t s) = [t]"
proof -
  assume "laid_out s"
  then have "fst ` set (tabs s) = set all_tabs" by (metis laid_out_def set_map)
  then have "t \<in> fst ` set (tabs s)" using all_tabs_mem by simp
  then show ?thesis by (simp add: active_tabs_def activate_single)
qed

subsection \<open>The sample run\<close>


lemma started_fields:
  "contactsPending started" "tabContent started = Some (Text ''Select a contact to view details.'')"
  "contactList started = Some (Cards [])" "selectedContactId started = None"
  "relatedPending started = []" "contacts started = []" "chartContext started"
  "console started = []" "toLowerCase started = ascii_lower" "trim started = ascii_trim"
  by (simp_all add: started_def init_def)

lemma started_layout: "laid_out started"
  by (simp add: started_def laid_out_init)

lemma to_contact_examples:
  "to_contact raw_ann = ann" "to_contact raw_blank = blank" "id' (to_contact raw_no_id) = []"
  by (simp_all add: to_contact_def raw_ann_def raw_blank_def raw_no_id_def ann_def blank_def)

lemma loaded_contacts: "contacts loaded = [ann, blank]"
  by (simp add: loaded_def started_fields loadContacts_settled_frame to_contact_examples
        ann_def blank_def)

lemma loaded_layout: "laid_out loaded" "\<not> contactsPending loaded"
  by (simp_all add: loaded_def laid_out_handlers started_layout started_fields
        loadContacts_settled_frame)

lemma loaded_fields:
  "contactList loaded = Some (Cards [contact_card ann, contact_card blank])"
  "tabContent loaded = Some (Text ''Select a contact to view details.'')"
  "selectedContactId loaded = None"
  "chartContext loaded"
  "relatedPending loaded = []"
  "byJob loaded = Some False"
  "byCity loaded = Some True"
  "chartType loaded = Bar"
  "toLowerCase loaded = ascii_lower"
  "trim loaded = ascii_trim"
  by (simp_all add: loaded_def started_fields loadContacts_settled_def Let_def to_contact_examples
      renderContactList_def ann_def blank_def)
     (simp_all add: started_def init_def)


lemma group_examples:
  "group_contacts City [ann, blank] = [(''NY'', Num 1), (''Unknown'', Num 1)]"
  "group_contacts Job [ann, blank] = [(''R&D <lead>'', Num 1), (''N/A'', Num 1)]"
  by (simp_all add: group_contacts_def group_key_def group_keys_def count_key_def assign_def
       next_count_def object_prototype_names_def ann_def blank_def)


lemma by_job_fields:
  "tabContent by_job \<noteq> None" "chartContext by_job" "byJob by_job = Some True"
  "byCity by_job = Some False" "contacts by_job = [ann, blank]" "chartType by_job = Bar"
  "chart by_job = Some (drawn Bar [(''R&D <lead>'', Num 1), (''N/A'', Num 1)] ''Contacts'')"
  by (simp_all add: by_job_def on_byJob_click_def loaded_fields loaded_contacts updateChart_chart
        group_examples)

section \<open>The claims\<close>

text \<open>
  C1. Grouping by city or job should give a mapping whose values add up to the number of
  contacts and whose keys are the distinct values present. The code counts into an object
  literal, so a city that is the name of a member of \<open>Object.prototype\<close> goes wrong: a
  contact whose city is \<open>__proto__\<close> leaves the mapping empty, and a contact whose city
  is \<open>constructor\<close> gets a cell that is not a number.
\<close>

theorem grouping_inherited_key_miscounted:
  "group_contacts City [in_city ''__proto__''] = []
   \<and> own_keys (group_contacts City [in_city ''__proto__'']) = []
   \<and> group_contacts City [in_city ''constructor'', in_city ''NY'']
       = [(''constructor'', NonNumber), (''NY'', Num 1)]
   \<and> own_values (group_contacts City [in_city ''constructor'', in_city ''NY''])
       = [NonNumber, Num 1]"
  by (simp add: group_contacts_def group_key_def group_keys_def count_key_def assign_def
        next_count_def object_prototype_names_def in_city_def own_keys_def own_values_def
        own_entries_def array_index_def is_digit_def)

text \<open>
  C2 (as amended). The search handler trims the text of the box first. With the list in
  place, it shows exactly the contacts whose lower-cased name contains the trimmed and
  lower-cased text, \<open>trim\<close> and \<open>toLowerCase\<close> being the runtime's: as cards in their
  stored order, or the text "No contacts found." when there are none. The stored contacts
  are unchanged. Where the runtime lower-cases the names and the trimmed text character by
  character, as it does on ASCII text, these are the contacts with a block of the name
  that equals the trimmed text up to case.
\<close>

theorem search_renders_trimmed_matches:
  assumes "contactList s \<noteq> None"
  shows "shown_contacts (on_search_input v s)
           = filter (name_contains_ci (toLowerCase s) (trim s v)) (contacts s)
     \<and> contactList (on_search_input v s) =
         Some (if filter (name_contains_ci (toLowerCase s) (trim s v)) (contacts s) = []
               then ListText ''No contacts found.''
               else Cards (map contact_card
                      (filter (name_contains_ci (toLowerCase s) (trim s v)) (contacts s))))
     \<and> contacts (on_search_input v s) = contacts s
     \<and> ((\<forall>c \<in> set (contacts s). toLowerCase s (name c) = map f (name c))
            \<and> toLowerCase s (trim s v) = map f (trim s v)
          \<longrightarrow> shown_contacts (on_search_input v s)
                = filter (\<lambda>c. contains_ci f (name c) (trim s v)) (contacts s))"
proof -
  let ?found = "filter (name_contains_ci (toLowerCase s) (trim s v)) (contacts s)"
  have r: "on_search_input v s = renderContactList ?found s"
    by (rule search_filter)
  have "map on_click (map contact_card ?found) = ?found"
    by (simp add: comp_def contact_card_def)
  then have shown: "shown_contacts (on_search_input v s) = ?found"
    using assms r by (auto simp: renderContactList_def shown_contacts_def)
  have list: "contactList (on_search_input v s) =
         Some (if ?found = [] then ListText ''No contacts found.''
               else Cards (map contact_card ?found))"
    using assms r by (auto simp: renderContactList_def)
  have letters: "?found = filter (\<lambda>c. contains_ci f (name c) (trim s v)) (contacts s)"
    if "\<forall>c \<in> set (contacts s). toLowerCase s (name c) = map f (name c)"
      and "toLowerCase s (trim s v) = map f (trim s v)"
    using that by (intro filter_cong) (simp_all add: name_contains_ci_letters)
  show ?thesis using shown list letters by simp
qed

theorem search_renders_trimmed_matches_witness:
  "contactList loaded \<noteq> None
   \<and> contacts loaded = [ann, blank]
   \<and> toLowerCase loaded (name ann) = map ascii_lower_char (name ann)
   \<and> toLowerCase loaded (name blank) = map ascii_lower_char (name blank)
   \<and> toLowerCase loaded (trim loaded ''  aNN '') = map ascii_lower_char (trim loaded ''  aNN '')
   \<and> trim loaded ''  aNN '' = ''aNN''
   \<and> shown_contacts (on_search_input ''  aNN '' loaded) = [ann]
   \<and> contacts (on_search_input ''  aNN '' loaded) = [ann, blank]"
proof -
  have h: "contactList loaded \<noteq> None"
    "\<forall>c \<in> set (contacts loaded). toLowerCase loaded (name c) = map ascii_lower_char (name c)"
    "toLowerCase loaded (trim loaded ''  aNN '') = map ascii_lower_char (trim loaded ''  aNN '')"
    by (simp_all add: loaded_fields ascii_lower_def)
  note t = search_renders_trimmed_matches[OF h(1), of "''  aNN ''" ascii_lower_char]
  have "shown_contacts (on_search_input ''  aNN '' loaded)
      = filter (\<lambda>c. contains_ci ascii_lower_char (name c) (trim loaded ''  aNN '')) (contacts loaded)"
    using t h(2,3) by blast
  moreover have "contacts (on_search_input ''  aNN '' loaded) = contacts loaded"
    using t by blast
  ultimately have "shown_contacts (on_search_input ''  aNN '' loaded) = [ann]"
    "contacts (on_search_input ''  aNN '' loaded) = [ann, blank]"
    by (simp_all add: loaded_fields loaded_contacts ascii_trim_examples ann_def blank_def
          same_letter_def char_eval)
  then show ?thesis using h by (simp add: loaded_fields loaded_contacts ascii_trim_examples)
qed

text \<open>
  The claim as written fails on a text with a space in front: for the text \<open> ann\<close> the
  handler shows Ann, whose lower-cased name does not contain that text lower-cased.
\<close>

theorem search_untrimmed_counterexample:
  "shown_contacts (on_search_input '' ann'' loaded) = [ann]
   \<and> filter (name_contains_ci (toLowerCase loaded) '' ann'') (contacts loaded) = []"
proof -
  have "filter (name_contains_ci ascii_lower ''ann'') [ann, blank] = [ann]"
    by (simp add: name_contains_ci_def ascii_lower_def ann_def blank_def char_eval
          sublist_Cons_right)
  then have "on_search_input '' ann'' loaded = renderContactList [ann] loaded"
    by (simp add: search_filter loaded_fields loaded_contacts ascii_trim_examples)
  then have "shown_contacts (on_search_input '' ann'' loaded) = [ann]"
    by (simp add: renderContactList_def loaded_fields shown_contacts_def contact_card_def)
  moreover have "filter (name_contains_ci (toLowerCase loaded) '' ann'') (contacts loaded) = []"
    by (simp add: loaded_fields loaded_contacts name_contains_ci_def ascii_lower_def
          ann_def blank_def char_eval sublist_Cons_right)
  ultimately show ?thesis by simp
qed

text \<open>
  C3. With no contact selected, switching to a tab other than the contact tab starts no
  request: the state differs from the old one only in the tab bar and in the tab content,
  so nothing is added to the pending related-data work and no random number is drawn. The
  tab content, which the layout always has, becomes the text "Select a contact first.".
\<close>

theorem switchTab_without_selection:
  assumes "tabName \<noteq> ContactTab" and "selectedContactId s = None"
  shows "(tabContent s \<noteq> None
            \<longrightarrow> tabContent (switchTab tabName s) = Some (Text ''Select a contact first.''))
     \<and> relatedPending (switchTab tabName s) = relatedPending s
     \<and> random_used (switchTab tabName s) = random_used s
     \<and> contactsPending (switchTab tabName s) = contactsPending s
     \<and> switchTab tabName s = s\<lparr>tabs := activate tabName (map (\<lambda>(t, a). (t, False)) (tabs s)),
            tabContent := map_option (\<lambda>_. Text ''Select a contact first.'') (tabContent s)\<rparr>"
proof -
  have "switchTab tabName s = s\<lparr>tabs := activate tabName (map (\<lambda>(t, a). (t, False)) (tabs s)),
            tabContent := map_option (\<lambda>_. Text ''Select a contact first.'') (tabContent s)\<rparr>"
    using assms by (cases "tabContent s") (simp_all add: switchTab_def Let_def)
  then show ?thesis by auto
qed

theorem switchTab_without_selection_witness:
  "Orders \<noteq> ContactTab \<and> selectedContactId started = None \<and> tabContent started \<noteq> None
   \<and> tabContent (switchTab Orders started) = Some (Text ''Select a contact first.'')
   \<and> relatedPending (switchTab Orders started) = []"
  using switchTab_without_selection[of Orders started] by (simp add: started_fields)

text \<open>
  C4. With the layout in place, selecting a contact records its id as the selected one,
  leaves the contact tab as the only active tab, and fills the detail panel with the
  contact's name, email, city and job title, each with the characters
  \<open>&\<close>, \<open><\<close>, \<open>>\<close>, double quote and single quote replaced by their entities.
\<close>

theorem onContactSelect_shows_escaped_details:
  assumes "laid_out s"
  shows "selectedContactId (onContactSelect contact s) = Some (id' contact)
     \<and> active_tabs (onContactSelect contact s) = [ContactTab]
     \<and> tabContent (onContactSelect contact s) =
         Some (Html (detail_panel (encode_entities (name contact)) (encode_entities (email contact))
                 (encode_entities (city contact)) (encode_entities (job contact))))"
proof -
  let ?s1 = "s\<lparr>selectedContactId := Some (id' contact)\<rparr>"
  have l1: "laid_out ?s1" using assms by (simp add: laid_out_def)
  have "active_tabs (onContactSelect contact s) = active_tabs (switchTab ContactTab ?s1)"
    by (simp add: active_tabs_def)
  then have a: "active_tabs (onContactSelect contact s) = [ContactTab]"
    using laid_out_active[OF l1] by simp
  have "present (tabContent (switchTab ContactTab ?s1))" using assms by (simp add: laid_out_def)
  then have "tabContent (switchTab ContactTab ?s1) \<noteq> None" unfolding present_def .
  then have "tabContent (onContactSelect contact s) =
       Some (Html (detail_panel (escapeHtml (name contact)) (escapeHtml (email contact))
                 (escapeHtml (city contact)) (escapeHtml (job contact))))"
    unfolding onContactSelect_def by (rule showContactDetails_tabContent)
  then show ?thesis using a by (simp add: escapeHtml_encode)
qed

theorem onContactSelect_shows_escaped_details_witness:
  "laid_out loaded
   \<and> selectedContactId (onContactSelect ann loaded) = Some ''c-1''
   \<and> active_tabs (onContactSelect ann loaded) = [ContactTab]
   \<and> tabContent (onContactSelect ann loaded) =
       Some (Html (''\<newline>      <h4>Ann &amp; Bob</h4>\<newline>      <p><strong>Email:</strong> ann@example.org</p>\<newline>      <p><strong>City:</strong> NY</p>\<newline>      <p><strong>Job Title:</strong> R&amp;D &lt;lead&gt;</p>\<newline>    ''))"
  using onContactSelect_shows_escaped_details[of loaded ann]
  by (simp add: loaded_layout ann_def detail_panel_def encode_entities_def html_entity_def)

text \<open>
  C5. The palette has eight entries; for every count the colour list has that many
  entries, entry i is palette entry i mod 8, and so entry 8 is palette entry 0 again.
\<close>

theorem getColors_cyclic:
  "length palette = 8 \<and> length (getColors n) = n
   \<and> (\<forall>i<n. getColors n ! i = palette ! (i mod 8))
   \<and> (8 < n \<longrightarrow> getColors n ! 8 = palette ! 0)"
  by (simp add: getColors_def palette_def)

theorem getColors_cyclic_witness:
  "(8::nat) < 9 \<and> length (getColors 9) = 9 \<and> getColors 9 ! 8 = ''#2563eb''
   \<and> getColors 9 ! 3 = ''#ef4444''"
proof -
  have "\<forall>i<9. getColors 9 ! i = palette ! (i mod 8)" "length (getColors 9) = 9"
    using getColors_cyclic[of 9] by simp_all
  then have "getColors 9 ! 8 = palette ! (8 mod 8)" "getColors 9 ! 3 = palette ! (3 mod 8)"
    "length (getColors 9) = 9" by simp_all
  then show ?thesis by (simp add: palette_def)
qed

text \<open>
  C6. When the request resolves, the stored contacts are the mapped records with a
  non-empty id, in the order of the input; equally, the images of the records whose
  \<open>contactid\<close> is present and non-empty. A record maps field by field, a missing
  \<open>fullname\<close> becoming "Unnamed", a missing \<open>emailaddress1\<close> or \<open>jobtitle\<close> "N/A",
  a missing \<open>address1_city\<close> "Unknown" and a missing \<open>contactid\<close> the empty id.
\<close>

theorem loadContacts_maps_and_filters:
  "contacts (loadContacts_settled (Inr ents) s) = filter (\<lambda>ct. id' ct \<noteq> []) (map to_contact ents)
   \<and> contacts (loadContacts_settled (Inr ents) s)
       = map to_contact (filter (\<lambda>e. contactid e \<noteq> None \<and> contactid e \<noteq> Some []) ents)
   \<and> (\<forall>v. contactid e = Some v \<longrightarrow> id' (to_contact e) = v)
   \<and> (contactid e = None \<longrightarrow> id' (to_contact e) = [])
   \<and> (\<forall>v. fullname e = Some v \<longrightarrow> name (to_contact e) = v)
   \<and> (fullname e = None \<longrightarrow> name (to_contact e) = ''Unnamed'')
   \<and> (\<forall>v. emailaddress1 e = Some v \<longrightarrow> email (to_contact e) = v)
   \<and> (emailaddress1 e = None \<longrightarrow> email (to_contact e) = ''N/A'')
   \<and> (\<forall>v. address1_city e = Some v \<longrightarrow> city (to_contact e) = v)
   \<and> (address1_city e = None \<longrightarrow> city (to_contact e) = ''Unknown'')
   \<and> (\<forall>v. jobtitle e = Some v \<longrightarrow> job (to_contact e) = v)
   \<and> (jobtitle e = None \<longrightarrow> job (to_contact e) = ''N/A'')"
proof -
  have "filter (\<lambda>ct. id' ct \<noteq> []) (map to_contact ents)
      = map to_contact (filter (\<lambda>e. contactid e \<noteq> None \<and> contactid e \<noteq> Some []) ents)"
    by (induction ents) (auto simp: to_contact_def split: option.splits)
  then show ?thesis by (simp add: loadContacts_settled_frame to_contact_def)
qed

theorem loadContacts_maps_and_filters_witness:
  "fullname raw_blank = None \<and> emailaddress1 raw_blank = None \<and> address1_city raw_blank = None
   \<and> jobtitle raw_blank = None \<and> contactid raw_no_id = None \<and> fullname raw_ann = Some ''Ann & Bob''
   \<and> to_contact raw_blank = blank \<and> name (to_contact raw_ann) = ''Ann & Bob''
   \<and> contacts (loadContacts_settled (Inr [raw_ann, raw_blank, raw_no_id]) started) = [ann, blank]"
proof -
  note t = loadContacts_maps_and_filters[of "[raw_ann, raw_blank, raw_no_id]" started]
  have "contacts (loadContacts_settled (Inr [raw_ann, raw_blank, raw_no_id]) started) = [ann, blank]"
    using t[of raw_ann] by (simp add: to_contact_examples ann_def blank_def)
  moreover have "name (to_contact raw_blank) = ''Unnamed''" "email (to_contact raw_blank) = ''N/A''"
    "city (to_contact raw_blank) = ''Unknown''" "job (to_contact raw_blank) = ''N/A''"
    "id' (to_contact raw_blank) = ''c-2''"
    using t[of raw_blank] by (simp_all add: raw_blank_def)
  moreover have "name (to_contact raw_ann) = ''Ann & Bob''"
    using t[of raw_ann] by (simp add: raw_ann_def)
  ultimately show ?thesis by (simp add: raw_blank_def raw_no_id_def raw_ann_def blank_def)
qed

text \<open>
  C7. When the request rejects, the \<open>catch\<close> branch runs and the method returns normally:
  the error is appended to the console, the tab content (when in place) becomes the fixed
  failure text, the stored contacts are unchanged, and no request is pending afterwards,
  after whatever events follow. Nothing else of the state changes.
\<close>

theorem loadContacts_rejected:
  "console (loadContacts_settled (Inl err) s)
       = console s @ [Error ''ContactDetailControl.loadContacts error:'' err]
   \<and> (tabContent s \<noteq> None \<longrightarrow> tabContent (loadContacts_settled (Inl err) s)
         = Some (Text ''Failed to load contacts. Check console for details.''))
   \<and> contacts (loadContacts_settled (Inl err) s) = contacts s
   \<and> \<not> contactsPending (run (loadContacts_settled (Inl err) s) evs)
   \<and> loadContacts_settled (Inl err) s = s\<lparr>contactsPending := False,
        console := console s @ [Error ''ContactDetailControl.loadContacts error:'' err],
        tabContent := map_option (\<lambda>_. Text ''Failed to load contacts. Check console for details.'')
                        (tabContent s)\<rparr>"
proof -
  have e: "loadContacts_settled (Inl err) s = s\<lparr>contactsPending := False,
        console := console s @ [Error ''ContactDetailControl.loadContacts error:'' err],
        tabContent := map_option (\<lambda>_. Text ''Failed to load contacts. Check console for details.'')
                        (tabContent s)\<rparr>"
    by (cases "tabContent s") (simp_all add: loadContacts_settled_def Let_def)
  have "\<not> contactsPending (loadContacts_settled (Inl err) s)" by (simp add: e)
  then have "\<not> contactsPending (run (loadContacts_settled (Inl err) s) evs)"
    using run_contacts by blast
  then show ?thesis using e by auto
qed

theorem loadContacts_rejected_witness:
  "tabContent started \<noteq> None
   \<and> tabContent (loadContacts_settled (Inl (JsError ''offline'')) started)
       = Some (Text ''Failed to load contacts. Check console for details.'')
   \<and> console (loadContacts_settled (Inl (JsError ''offline'')) started)
       = [Error ''ContactDetailControl.loadContacts error:'' (JsError ''offline'')]
   \<and> contacts (loadContacts_settled (Inl (JsError ''offline'')) started) = []"
  using loadContacts_rejected[of "JsError ''offline''" started "[]"]
  by (simp add: started_fields)




text \<open>
  C9 (as amended). \<open>destroy\<close> leaves the stored contacts in place, and once the contact
  request has settled no sequence of events changes them: searching, selecting, switching
  tabs, regrouping, a fired timer and \<open>destroy\<close> all keep the sequence as it is.
\<close>

theorem contacts_kept_after_load_and_destroy:
  "contacts (destroy s) = contacts s
   \<and> (\<not> contactsPending s \<longrightarrow> contacts (run s evs) = contacts s)"
  using run_contacts[of s evs] by simp

theorem contacts_kept_after_load_and_destroy_witness:
  "\<not> contactsPending loaded
   \<and> contacts (run loaded [SearchInput ''x'', CardClick 0, TabClick Orders, Destroy, RelatedTimer])
       = [ann, blank]
   \<and> contacts (destroy loaded) = [ann, blank]"
  using contacts_kept_after_load_and_destroy[of loaded
          "[SearchInput ''x'', CardClick 0, TabClick Orders, Destroy, RelatedTimer]"]
  by (simp add: loaded_layout loaded_contacts)

text \<open>
  The claim as written fails on the sample run: after \<open>destroy\<close> the control still holds
  both contacts.
\<close>

theorem destroy_discards_contacts_counterexample:
  "contacts loaded = [ann, blank] \<and> contacts (destroy loaded) = [ann, blank]
   \<and> contacts (destroy loaded) \<noteq> []"
  by (simp add: loaded_contacts)

text \<open>
  C10. With the tab content in place, showing a contact's details leaves the chart exactly
  as a redraw by city leaves it, whatever the grouping buttons say: directly, on selecting
  a contact, and on re-entering the contact tab with a selected contact. With a canvas
  context that chart is the one drawn from the contacts grouped by city. The buttons keep
  their state, so "By Job" can stay active over a chart by city.
\<close>

theorem details_redraw_chart_by_city:
  assumes "tabContent s \<noteq> None"
  shows "chart (showContactDetails contact s) = chart (updateChart City s)
     \<and> chart (onContactSelect contact s) = chart (updateChart City s)
     \<and> (\<forall>c. find (\<lambda>c. Some (id' c) = selectedContactId s) (contacts s) = Some c
          \<longrightarrow> chart (switchTab ContactTab s) = chart (updateChart City s))
     \<and> (chartContext s \<longrightarrow> chart (updateChart City s)
           = Some (drawn (chartType s) (group_contacts City (contacts s)) ''Contacts''))
     \<and> byCity (showContactDetails contact s) = byCity s
     \<and> byJob (showContactDetails contact s) = byJob s
     \<and> byCity (onContactSelect contact s) = byCity s
     \<and> byJob (onContactSelect contact s) = byJob s"
proof (cases "chartContext s")
  case False
  then show ?thesis by (simp add: chart_without_context)
next
  case True
  have a: "chart (showContactDetails contact s)
           = Some (drawn (chartType s) (group_contacts City (contacts s)) ''Contacts'')"
    using assms True by (rule showContactDetails_chart)
  let ?s1 = "switchTab ContactTab (s\<lparr>selectedContactId := Some (id' contact)\<rparr>)"
  have "present (tabContent s)" using assms by (simp add: present_def)
  then have "present (tabContent ?s1)" by simp
  then have "tabContent ?s1 \<noteq> None" unfolding present_def .
  moreover have "chartContext ?s1" using True by simp
  ultimately have "chart (showContactDetails contact ?s1)
           = Some (drawn (chartType ?s1) (group_contacts City (contacts ?s1)) ''Contacts'')"
    by (rule showContactDetails_chart)
  then have b: "chart (onContactSelect contact s)
           = Some (drawn (chartType s) (group_contacts City (contacts s)) ''Contacts'')"
    by (simp add: onContactSelect_def)
  have c: "chart (switchTab ContactTab s)
                = Some (drawn (chartType s) (group_contacts City (contacts s)) ''Contacts'')"
    if "find (\<lambda>c. Some (id' c) = selectedContactId s) (contacts s) = Some c" for c
  proof -
    let ?s2 = "s\<lparr>tabs := activate ContactTab (map (\<lambda>(t, a). (t, False)) (tabs s))\<rparr>"
    obtain x where "tabContent s = Some x" using assms by auto
    then have "switchTab ContactTab s = showContactDetails c ?s2"
      using that by (simp add: switchTab_def Let_def)
    moreover have "tabContent ?s2 \<noteq> None" "chartContext ?s2" using assms True by simp_all
    then have "chart (showContactDetails c ?s2)
         = Some (drawn (chartType ?s2) (group_contacts City (contacts ?s2)) ''Contacts'')"
      by (rule showContactDetails_chart)
    ultimately show ?thesis by simp
  qed
  show ?thesis using a b c True by (simp add: updateChart_chart)
qed

theorem details_redraw_chart_by_city_witness:
  "tabContent by_job \<noteq> None \<and> chartContext by_job \<and> byJob by_job = Some True
   \<and> chart by_job = Some (drawn Bar [(''R&D <lead>'', Num 1), (''N/A'', Num 1)] ''Contacts'')
   \<and> chart (onContactSelect ann by_job)
       = Some (drawn Bar [(''NY'', Num 1), (''Unknown'', Num 1)] ''Contacts'')
   \<and> labels (config (drawn Bar [(''NY'', Num 1), (''Unknown'', Num 1)] ''Contacts''))
       = [''NY'', ''Unknown'']
   \<and> byJob (onContactSelect ann by_job) = Some True"
proof -
  have "labels (config (drawn Bar [(''NY'', Num 1), (''Unknown'', Num 1)] ''Contacts''))
       = [''NY'', ''Unknown'']"
    by (simp add: drawn_def own_keys_def own_entries_def array_index_def is_digit_def)
  then show ?thesis
    using details_redraw_chart_by_city[of by_job ann]
    by (simp add: by_job_fields group_examples)
qed

end
